theory Spec2Isabelle
  imports Main
begin

section \<open>Strings\<close>

text \<open>
  JavaScript strings are modelled as lists of ASCII characters. White space is the ASCII
  part of the class \<open>\s\<close> (tab, line feed, vertical tab, form feed, carriage return,
  space); case folding acts on the letters A to Z.
\<close>

definition is_ws :: "char \<Rightarrow> bool" where
  "is_ws c = (c \<in> set [CHR 0x09, CHR 0x0A, CHR 0x0B, CHR 0x0C, CHR 0x0D, CHR '' ''])"

definition lower_char :: "char \<Rightarrow> char" where
  "lower_char c =
     (case map_of (zip ''ABCDEFGHIJKLMNOPQRSTUVWXYZ'' ''abcdefghijklmnopqrstuvwxyz'') c of
        Some d \<Rightarrow> d
      | None \<Rightarrow> c)"

definition toLowerCase :: "string \<Rightarrow> string" where
  "toLowerCase s = map lower_char s"

text \<open>\<open>s.replace(/\s+/g, " ")\<close>: every maximal run of white space becomes one space.\<close>

function replace_ws :: "string \<Rightarrow> string" where
  "replace_ws [] = []"
| "replace_ws (c # cs) =
     (if is_ws c then CHR '' '' # replace_ws (dropWhile is_ws cs) else c # replace_ws cs)"
  by pat_completeness auto
termination
  by (relation "measure length") (auto simp: length_dropWhile_le less_Suc_eq_le)

definition trim :: "string \<Rightarrow> string" where
  "trim s = rev (dropWhile is_ws (rev (dropWhile is_ws s)))"

text \<open>\<open>norm\<close> of the content script; the caller supplies \<open>s ?? ""\<close>.\<close>

definition norm :: "string \<Rightarrow> string" where
  "norm s = trim (replace_ws (toLowerCase s))"

fun startsWith :: "string \<Rightarrow> string \<Rightarrow> bool" where
  "startsWith s [] = True"
| "startsWith [] (p # ps) = False"
| "startsWith (c # cs) (p # ps) = (c = p \<and> startsWith cs ps)"

text \<open>\<open>s.includes(w)\<close>: \<open>w\<close> occurs in \<open>s\<close> as a contiguous substring.\<close>

fun includes_str :: "string \<Rightarrow> string \<Rightarrow> bool" where
  "includes_str [] w = (w = [])"
| "includes_str (c # cs) w = (startsWith (c # cs) w \<or> includes_str cs w)"

text \<open>A case-insensitive literal pattern such as \<open>/present/i.test(s)\<close>; the word is given
  in lower case.\<close>

definition test_ci :: "string \<Rightarrow> string \<Rightarrow> bool" where
  "test_ci word s = includes_str (toLowerCase s) word"

definition is_digit :: "char \<Rightarrow> bool" where
  "is_digit c = (c \<in> set ''0123456789'')"

definition digit_val :: "char \<Rightarrow> nat" where
  "digit_val c = (case map_of (zip ''0123456789'' [0, 1, 2, 3, 4, 5, 6, 7, 8, 9]) c of
                    Some n \<Rightarrow> n | None \<Rightarrow> 0)"

text \<open>\<open>Number(s)\<close> on a string of decimal digits.\<close>

definition number_of_digits :: "string \<Rightarrow> nat" where
  "number_of_digits s = foldl (\<lambda>acc c. 10 * acc + digit_val c) 0 s"

fun show_nat :: "nat \<Rightarrow> string" where
  "show_nat n =
     (if n < 10 then [''0123456789'' ! n] else show_nat (n div 10) @ [''0123456789'' ! (n mod 10)])"

declare show_nat.simps [simp del]

definition show_int :: "int \<Rightarrow> string" where
  "show_int i = (if i < 0 then CHR ''-'' # show_nat (nat (- i)) else show_nat (nat i))"

fun join :: "string \<Rightarrow> string list \<Rightarrow> string" where
  "join sep [] = []"
| "join sep [x] = x"
| "join sep (x # y # ys) = x @ sep @ join sep (y # ys)"

text \<open>\<open>path.split(".")\<close>: always at least one segment; empty segments are kept.\<close>

fun split_dot :: "string \<Rightarrow> string list" where
  "split_dot [] = [[]]"
| "split_dot (c # cs) =
     (if c = CHR ''.'' then [] # split_dot cs
      else (case split_dot cs of [] \<Rightarrow> [[c]] | w # ws \<Rightarrow> (c # w) # ws))"

section \<open>Profile values\<close>

text \<open>
  The profile is the result of \<open>JSON.parse\<close>: an arbitrarily shaped value. Numbers are
  restricted to integers. \<open>JNative\<close> stands for a built-in function object, which a lookup
  can reach through the prototype chain (for instance \<open>toString\<close>).
\<close>

datatype jsval =
    Undefined
  | Null
  | JBool bool
  | JNum int
  | JStr string
  | JArr "jsval list"
  | JObj "(string \<times> jsval) list"
  | JNative string

fun nullish :: "jsval \<Rightarrow> bool" where
  "nullish Undefined = True"
| "nullish Null = True"
| "nullish v = False"

fun truthy :: "jsval \<Rightarrow> bool" where
  "truthy Undefined = False"
| "truthy Null = False"
| "truthy (JBool b) = b"
| "truthy (JNum i) = (i \<noteq> 0)"
| "truthy (JStr s) = (s \<noteq> [])"
| "truthy v = True"

fun isArray :: "jsval \<Rightarrow> bool" where
  "isArray (JArr xs) = True"
| "isArray v = False"

text \<open>\<open>String(v)\<close>.\<close>

fun js_String :: "jsval \<Rightarrow> string" where
  "js_String Undefined = ''undefined''"
| "js_String Null = ''null''"
| "js_String (JBool b) = (if b then ''true'' else ''false'')"
| "js_String (JNum i) = show_int i"
| "js_String (JStr s) = s"
| "js_String (JArr xs) = join '','' (map (\<lambda>x. if nullish x then [] else js_String x) xs)"
| "js_String (JObj fs) = ''[object Object]''"
| "js_String (JNative n) = ''function '' @ n @ ''() { [native code] }''"

text \<open>A canonical array index: decimal digits without a leading zero.\<close>

definition index_of_key :: "string \<Rightarrow> nat option" where
  "index_of_key k =
     (if k \<noteq> [] \<and> list_all is_digit k \<and> (hd k \<noteq> CHR ''0'' \<or> length k = 1)
      then Some (number_of_digits k) else None)"

text \<open>The own properties of a value: the fields of an object, the length and the indexed
  elements of an array or a string.\<close>

fun own_prop :: "jsval \<Rightarrow> string \<Rightarrow> jsval option" where
  "own_prop (JObj fs) k = map_of fs k"
| "own_prop (JArr xs) k =
     (if k = ''length'' then Some (JNum (int (length xs)))
      else (case index_of_key k of
              Some i \<Rightarrow> (if i < length xs then Some (xs ! i) else None)
            | None \<Rightarrow> None))"
| "own_prop (JStr s) k =
     (if k = ''length'' then Some (JNum (int (length s)))
      else (case index_of_key k of
              Some i \<Rightarrow> (if i < length s then Some (JStr [s ! i]) else None)
            | None \<Rightarrow> None))"
| "own_prop v k = None"

text \<open>
  \<open>o?.[k]\<close>. A nullish \<open>o\<close> gives \<open>undefined\<close>; otherwise the own property, and when there
  is none, whatever the prototype chain of the JavaScript environment holds under that
  name. The environment is not part of the repository: it is the parameter \<open>inh\<close>.
\<close>

type_synonym inherited = "jsval \<Rightarrow> string \<Rightarrow> jsval"

definition js_get :: "inherited \<Rightarrow> jsval \<Rightarrow> string \<Rightarrow> jsval" where
  "js_get inh o1 k =
     (if nullish o1 then Undefined
      else (case own_prop o1 k of Some v \<Rightarrow> v | None \<Rightarrow> inh o1 k))"

text \<open>An environment whose prototypes hold nothing under the names looked up.\<close>

definition no_inherited :: inherited where
  "no_inherited o1 k = Undefined"

text \<open>\<open>ks.reduce((o, k) => o?.[k], obj)\<close>.\<close>

definition walk :: "inherited \<Rightarrow> jsval \<Rightarrow> string list \<Rightarrow> jsval" where
  "walk inh obj ks = foldl (js_get inh) obj ks"


section \<open>The profile resolver of the content script\<close>

subsection \<open>Times\<close>

text \<open>
  The numbers \<open>toTime\<close> computes: a finite count of milliseconds or one of the two
  infinities; their difference can also be \<open>NaN\<close>.
\<close>

datatype num = NegInf | Fin int | PosInf | NaN

fun num_sub :: "num \<Rightarrow> num \<Rightarrow> num" where
  "num_sub (Fin a) (Fin b) = Fin (a - b)"
| "num_sub NaN y = NaN"
| "num_sub x NaN = NaN"
| "num_sub PosInf PosInf = NaN"
| "num_sub NegInf NegInf = NaN"
| "num_sub PosInf y = PosInf"
| "num_sub NegInf y = NegInf"
| "num_sub (Fin a) PosInf = NegInf"
| "num_sub (Fin a) NegInf = PosInf"


fun num_pos :: "num \<Rightarrow> bool" where
  "num_pos PosInf = True"
| "num_pos (Fin a) = (0 < a)"
| "num_pos v = False"

text \<open>
  \<open>new Date(y, mo, d).getTime()\<close> as ECMAScript defines it (\<open>MakeDay\<close>, \<open>MakeDate\<close>), with
  the local time zone taken to be UTC. A year from 0 to 99 stands for 1900 to 1999; a
  month or a day out of range carries over.
\<close>

definition dayFromYear :: "int \<Rightarrow> int" where
  "dayFromYear y =
     365 * (y - 1970) + (y - 1969) div 4 - (y - 1901) div 100 + (y - 1601) div 400"

definition inLeapYear :: "int \<Rightarrow> bool" where
  "inLeapYear y = (y mod 4 = 0 \<and> (y mod 100 \<noteq> 0 \<or> y mod 400 = 0))"

definition monthStart :: "int \<Rightarrow> nat \<Rightarrow> int" where
  "monthStart y mn =
     [0, 31, 59, 90, 120, 151, 181, 212, 243, 273, 304, 334] ! mn
       + (if inLeapYear y \<and> 2 \<le> mn then 1 else 0)"

definition makeDay :: "int \<Rightarrow> int \<Rightarrow> int \<Rightarrow> int" where
  "makeDay year month date1 =
     (let ym = year + month div 12; mn = nat (month mod 12)
      in dayFromYear ym + monthStart ym mn + date1 - 1)"

definition date_getTime :: "int \<Rightarrow> int \<Rightarrow> int \<Rightarrow> int" where
  "date_getTime y mo d =
     makeDay (if 0 \<le> y \<and> y \<le> 99 then 1900 + y else y) mo d * 86400000"

text \<open>
  The match of \<open>/^(\d{4})(?:-(\d{2}))?(?:-(\d{2}))?/\<close>: the year and the two optional
  groups.
\<close>

definition two_digits :: "string \<Rightarrow> string option" where
  "two_digits s =
     (if startsWith s ''-'' \<and> 3 \<le> length s \<and> list_all is_digit (take 2 (drop 1 s))
      then Some (take 2 (drop 1 s)) else None)"

definition match_date :: "string \<Rightarrow> (string \<times> string option \<times> string option) option" where
  "match_date s =
     (if 4 \<le> length s \<and> list_all is_digit (take 4 s)
      then (case two_digits (drop 4 s) of
              None \<Rightarrow> Some (take 4 s, None, None)
            | Some m2 \<Rightarrow> Some (take 4 s, Some m2, two_digits (drop 7 s)))
      else None)"

definition toTime :: "jsval \<Rightarrow> num" where
  "toTime s =
     (if \<not> truthy s then NegInf
      else if test_ci ''present'' (js_String s) then PosInf
      else (case match_date (js_String s) of
              None \<Rightarrow> NegInf
            | Some (m1, m2, m3) \<Rightarrow>
                (let y = int (number_of_digits m1);
                     mo = int (number_of_digits (case m2 of None \<Rightarrow> ''01'' | Some t \<Rightarrow> t)) - 1;
                     d = int (number_of_digits (case m3 of None \<Rightarrow> ''01'' | Some t \<Rightarrow> t))
                 in Fin (date_getTime y mo d))))"

subsection \<open>The most recent education entry\<close>

text \<open>
  A property the engine reads under a fixed name (\<open>basics\<close>, \<open>education\<close>, \<open>end\<close>, ...):
  none of these names is a member of a standard prototype, so the lookup is the own
  property or \<open>undefined\<close>.
\<close>

definition field :: "jsval \<Rightarrow> string \<Rightarrow> jsval" where
  "field o1 k = js_get no_inherited o1 k"

record scored =
  item :: jsval
  start :: num
  end_time :: num
  ongoing :: bool

definition score :: "jsval \<Rightarrow> scored" where
  "score it =
     \<lparr> item = it,
       start = toTime (field it ''start''),
       end_time = toTime (field it ''end''),
       ongoing = (\<not> truthy (field it ''end'') \<or> test_ci ''present'' (js_String (field it ''end''))) \<rparr>"

text \<open>The comparator handed to \<open>sort\<close>.\<close>

definition compare_scored :: "scored \<Rightarrow> scored \<Rightarrow> num" where
  "compare_scored a b =
     (if ongoing a \<noteq> ongoing b then (if ongoing a then Fin (- 1) else Fin 1)
      else if end_time a \<noteq> end_time b then num_sub (end_time b) (end_time a)
      else num_sub (start b) (start a))"

text \<open>
  \<open>Array.prototype.sort\<close> is stable; with a consistent comparator its result is the one of
  a stable insertion sort. A positive comparison value puts the second argument first;
  zero and \<open>NaN\<close> leave the order.
\<close>

fun insert_by :: "('a \<Rightarrow> 'a \<Rightarrow> num) \<Rightarrow> 'a \<Rightarrow> 'a list \<Rightarrow> 'a list" where
  "insert_by cmp x [] = [x]"
| "insert_by cmp x (y # ys) = (if num_pos (cmp x y) then y # insert_by cmp x ys else x # y # ys)"

fun sort_by :: "('a \<Rightarrow> 'a \<Rightarrow> num) \<Rightarrow> 'a list \<Rightarrow> 'a list" where
  "sort_by cmp [] = []"
| "sort_by cmp (x # xs) = insert_by cmp x (sort_by cmp xs)"

definition mostRecentEdu :: "jsval \<Rightarrow> jsval" where
  "mostRecentEdu obj =
     (let arr = (case field obj ''education'' of JArr xs \<Rightarrow> xs | v \<Rightarrow> [])
      in if length arr = 0 then Undefined
         else (case sort_by compare_scored (map score arr) of
                 [] \<Rightarrow> Undefined
               | s # ss \<Rightarrow> item s))"

subsection \<open>The other derived values\<close>

definition nullish_or :: "jsval \<Rightarrow> jsval \<Rightarrow> jsval" where
  "nullish_or v dflt = (if nullish v then dflt else v)"

definition fullName :: "jsval \<Rightarrow> jsval" where
  "fullName obj =
     (let first = trim (js_String (nullish_or (field (field obj ''basics'') ''firstName'') (JStr [])));
          last1 = trim (js_String (nullish_or (field (field obj ''basics'') ''lastName'') (JStr [])));
          full = join '' '' (filter (\<lambda>s. s \<noteq> []) [first, last1])
      in if full = [] then Undefined else JStr full)"

datatype js_error = TypeError

text \<open>
  \<open>obj?.links?.find(l => rx.test(l?.label ?? ""))?.url\<close>. A \<open>links\<close> value that is
  neither nullish nor an array has no callable \<open>find\<close>: the call throws.
\<close>

definition findLink :: "(string \<Rightarrow> bool) \<Rightarrow> jsval \<Rightarrow> js_error + jsval" where
  "findLink rx obj =
     (case field obj ''links'' of
        Undefined \<Rightarrow> Inr Undefined
      | Null \<Rightarrow> Inr Undefined
      | JArr ls \<Rightarrow>
          (case find (\<lambda>l. rx (js_String (nullish_or (field l ''label'') (JStr [])))) ls of
             None \<Rightarrow> Inr Undefined
           | Some l \<Rightarrow> Inr (field l ''url''))
      | v \<Rightarrow> Inl TypeError)"

text \<open>\<open>yyyymm\<close>: the match of \<open>/^(\d{4})-(\d{2})/\<close> keeps the first seven characters.\<close>

definition yyyymm :: "jsval \<Rightarrow> jsval" where
  "yyyymm s =
     (if \<not> truthy s then s
      else (let t = js_String s
            in if 7 \<le> length t \<and> list_all is_digit (take 4 t) \<and> t ! 4 = CHR ''-''
                    \<and> list_all is_digit (take 2 (drop 5 t))
               then JStr (take 7 t) else s))"

text \<open>\<open>get\<close> of the third revision of the content script (\<open>src/unnamed/part_003\<close>).\<close>

definition get :: "inherited \<Rightarrow> jsval \<Rightarrow> string \<Rightarrow> js_error + jsval" where
  "get inh obj path =
     (if path = ''basics._fullName'' then Inr (fullName obj)
      else if path = ''links.linkedin'' then findLink (test_ci ''linkedin'') obj
      else if path = ''links.github'' then findLink (test_ci ''github'') obj
      else if path = ''links.website'' then
        findLink (\<lambda>s. test_ci ''website'' s \<or> test_ci ''portfolio'' s \<or> test_ci ''personal'' s) obj
      else if path = ''workAuth.usWorkAuthorization'' then
        Inr (field (field obj ''demographics'') ''workAuthorization'')
      else if path = ''workAuth.needsSponsorship'' then
        Inr (field (field obj ''demographics'') ''needsSponsorship'')
      else if path = ''demographics.race'' then
        Inr (let arr = field (field obj ''demographics'') ''raceEthnicity''
             in if isArray arr then arr else Undefined)
      else if path = ''demographics.veteran'' then
        Inr (field (field obj ''demographics'') ''veteranStatus'')
      else if path = ''education.mostRecent.school'' then Inr (field (mostRecentEdu obj) ''school'')
      else if path = ''education.mostRecent.degree'' then Inr (field (mostRecentEdu obj) ''degree'')
      else if path = ''education.mostRecent.field'' then Inr (field (mostRecentEdu obj) ''field'')
      else if path = ''education.mostRecent.start'' then
        Inr (yyyymm (field (mostRecentEdu obj) ''start''))
      else if path = ''education.mostRecent.end'' then
        (let val = field (mostRecentEdu obj) ''end''
         in Inr (if test_ci ''present'' (js_String val) then JStr [] else yyyymm val))
      else Inr (walk inh obj (split_dot path)))"


subsection \<open>Notions for stating the order of the comparator\<close>





section \<open>The document\<close>

text \<open>
  An element of the page: its identity, tag name (lower case), attributes, the text it
  renders (\<open>innerText\<close>), whether it is laid out (\<open>offsetParent !== null\<close>), its
  children and, when it hosts one, the content of its open shadow root. A document and a
  shadow root are the lists of their top-level elements.
\<close>

datatype node =
  Node (eid: nat) (tag: string) (attrs: "(string \<times> string) list") (innerText: string)
       (rendered: bool) (kids: "node list") (shadowRoot: "node list option")

text \<open>\<open>el.getAttribute(a)\<close>, and the reflecting properties that default to \<open>""\<close>.\<close>

definition getAttribute :: "node \<Rightarrow> string \<Rightarrow> string option" where
  "getAttribute el a = map_of (attrs el) a"

definition attr_or_empty :: "node \<Rightarrow> string \<Rightarrow> string" where
  "attr_or_empty el a = (case getAttribute el a of Some v \<Rightarrow> v | None \<Rightarrow> [])"

fun descendants :: "node \<Rightarrow> node list" where
  "descendants (Node i t a x r ks sh) = concat (map (\<lambda>k. k # descendants k) ks)"

text \<open>\<open>root.querySelectorAll("*")\<close>: the elements of one tree in document order. A shadow
  root is a tree of its own and is not entered.\<close>

definition all_elements :: "node list \<Rightarrow> node list" where
  "all_elements scope = concat (map (\<lambda>k. k # descendants k) scope)"

definition isFormEl :: "node \<Rightarrow> bool" where
  "isFormEl n = (tag n = ''input'' \<or> tag n = ''select'' \<or> tag n = ''textarea'')"

lemma size_descendants: "n \<in> set (descendants m) \<Longrightarrow> size n < size m"
proof (induction m arbitrary: n)
  case (Node i t a x r ks sh)
  then obtain k where k: "k \<in> set ks" "n = k \<or> n \<in> set (descendants k)"
    by auto
  have "size k \<le> size_list size ks"
    using k(1) by (rule size_list_estimation') simp
  then have "size k < size (Node i t a x r ks sh)"
    by simp
  moreover have "size n \<le> size k"
    using k Node.IH(1) [OF k(1)] by (auto simp: less_imp_le)
  ultimately show ?case by simp
qed

lemma size_shadow_in_scope:
  assumes "el \<in> set (all_elements scope)" "shadowRoot el = Some sr"
  shows "size_list size sr < size_list size scope"
proof -
  from assms(1) obtain k where k: "k \<in> set scope" "el = k \<or> el \<in> set (descendants k)"
    by (auto simp: all_elements_def)
  have "size el \<le> size k"
    using k(2) size_descendants [of el k] by auto
  moreover have "size_list size sr < size el"
    using assms(2) by (cases el) simp
  moreover have "size k \<le> size_list size scope"
    using k(1) by (rule size_list_estimation') simp
  ultimately show ?thesis by simp
qed

text \<open>
  \<open>walk\<close> of \<open>collectInputsDeep\<close>: the form elements of the current tree, then, for every
  element of the tree in document order that hosts a shadow root, the walk of that root.
\<close>

function walk_dom :: "node list \<Rightarrow> node list" where
  "walk_dom scope =
     filter isFormEl (all_elements scope)
     @ concat (map (\<lambda>el. case shadowRoot el of None \<Rightarrow> [] | Some sr \<Rightarrow> walk_dom sr)
                (all_elements scope))"
  by pat_completeness auto
termination
  by (relation "measure (size_list size)") (auto simp: size_shadow_in_scope)

declare walk_dom.simps [simp del]

definition collectInputsDeep :: "node list \<Rightarrow> node list" where
  "collectInputsDeep root = filter isFormEl (walk_dom root)"

subsection \<open>Queries on the document\<close>

text \<open>\<open>document.getElementById(id)\<close> and \<open>document.querySelector('label[for="id"]')\<close>:
  the first match among the elements of the document tree itself.\<close>

definition getElementById :: "node list \<Rightarrow> string \<Rightarrow> node option" where
  "getElementById doc i =
     (if i = [] then None else find (\<lambda>n. getAttribute n ''id'' = Some i) (all_elements doc))"

definition query_label_for :: "node list \<Rightarrow> string \<Rightarrow> node option" where
  "query_label_for doc i =
     find (\<lambda>n. tag n = ''label'' \<and> getAttribute n ''for'' = Some i) (all_elements doc)"

text \<open>
  The inclusive ancestors of the element with identity \<open>i\<close>, innermost first, inside the
  tree that holds it: the search enters shadow roots, and the chain of an element found
  in a shadow root ends at the top of that shadow tree.
\<close>

fun ancestors_node :: "nat \<Rightarrow> node \<Rightarrow> node list option"
  and ancestors_list :: "nat \<Rightarrow> node list \<Rightarrow> node list option" where
  "ancestors_node i (Node j t a x r ks sh) =
     (if j = i then Some [Node j t a x r ks sh]
      else (case ancestors_list i ks of
              Some c \<Rightarrow> Some (c @ [Node j t a x r ks sh])
            | None \<Rightarrow> (case sh of None \<Rightarrow> None | Some sr \<Rightarrow> ancestors_list i sr)))"
| "ancestors_list i [] = None"
| "ancestors_list i (k # ks) =
     (case ancestors_node i k of Some c \<Rightarrow> Some c | None \<Rightarrow> ancestors_list i ks)"

text \<open>\<open>el.closest(t)\<close> for a tag name \<open>t\<close>.\<close>

definition closest :: "node list \<Rightarrow> node \<Rightarrow> string \<Rightarrow> node option" where
  "closest doc el t =
     (case ancestors_list (eid el) doc of
        None \<Rightarrow> (if tag el = t then Some el else None)
      | Some c \<Rightarrow> find (\<lambda>n. tag n = t) c)"

text \<open>\<open>s.split(/\s+/)\<close>.\<close>

function split_ws :: "string \<Rightarrow> string list" where
  "split_ws [] = [[]]"
| "split_ws (c # cs) =
     (if is_ws c then [] # split_ws (dropWhile is_ws cs)
      else (case split_ws cs of [] \<Rightarrow> [[c]] | w # ws \<Rightarrow> (c # w) # ws))"
  by pat_completeness auto
termination
  by (relation "measure length") (auto simp: length_dropWhile_le less_Suc_eq_le)

text \<open>\<open>x?.innerText || ""\<close>.\<close>

definition text_or_empty :: "node option \<Rightarrow> string" where
  "text_or_empty x = (case x of None \<Rightarrow> [] | Some n \<Rightarrow> innerText n)"

subsection \<open>Label text, descriptor and key matching (third revision)\<close>

definition forLabel :: "node list \<Rightarrow> node \<Rightarrow> string" where
  "forLabel doc el =
     (if attr_or_empty el ''id'' \<noteq> []
      then text_or_empty (query_label_for doc (attr_or_empty el ''id'')) else [])"

definition byText :: "node list \<Rightarrow> node \<Rightarrow> string" where
  "byText doc el =
     (case getAttribute el ''aria-labelledby'' of
        None \<Rightarrow> []
      | Some l \<Rightarrow>
          (if l = [] then []
           else join '' '' (map (\<lambda>i. text_or_empty (getElementById doc i)) (split_ws l))))"

definition parentLbl :: "node list \<Rightarrow> node \<Rightarrow> string" where
  "parentLbl doc el = text_or_empty (closest doc el ''label'')"

definition legend :: "node list \<Rightarrow> node \<Rightarrow> string" where
  "legend doc el =
     (case closest doc el ''fieldset'' of
        None \<Rightarrow> []
      | Some fs \<Rightarrow> text_or_empty (find (\<lambda>n. tag n = ''legend'') (descendants fs)))"

definition labelText :: "node list \<Rightarrow> node \<Rightarrow> string" where
  "labelText doc el =
     join '' '' (filter (\<lambda>s. s \<noteq> [])
       [forLabel doc el, parentLbl doc el, attr_or_empty el ''aria-label'', byText doc el,
        legend doc el])"

text \<open>\<open>el.placeholder\<close>: a property of inputs and text areas only.\<close>

definition placeholder :: "node \<Rightarrow> string option" where
  "placeholder el =
     (if tag el = ''input'' \<or> tag el = ''textarea'' then Some (attr_or_empty el ''placeholder'')
      else None)"

definition isNonEmptyString :: "string option \<Rightarrow> bool" where
  "isNonEmptyString v = (case v of None \<Rightarrow> False | Some s \<Rightarrow> length (trim s) > 0)"

definition candidates_of :: "string \<Rightarrow> node \<Rightarrow> string" where
  "candidates_of lbl el =
     join '' | '' (map (\<lambda>v. norm (case v of None \<Rightarrow> [] | Some s \<Rightarrow> s)) (filter isNonEmptyString
       [getAttribute el ''name'', getAttribute el ''id'', placeholder el, Some lbl,
        getAttribute el ''aria-label'']))"

definition candidates :: "node list \<Rightarrow> node \<Rightarrow> string" where
  "candidates doc el = candidates_of (labelText doc el) el"

text \<open>
  \<open>FIELD_ALIASES\<close> is imported from \<open>./aliases\<close>, which is not among the sources: the table
  is a parameter, its entries in the order \<open>Object.entries\<close> yields them, each pattern the
  predicate its \<open>test\<close> computes.
\<close>

type_synonym aliases = "(string \<times> (string \<Rightarrow> bool) list) list"

fun match_table :: "aliases \<Rightarrow> string \<Rightarrow> string option" where
  "match_table [] c = None"
| "match_table ((k, regs) # rest) c = (if list_ex (\<lambda>r. r c) regs then Some k else match_table rest c)"

definition matchKey :: "aliases \<Rightarrow> node list \<Rightarrow> node \<Rightarrow> string option" where
  "matchKey al doc el = match_table al (candidates doc el)"

section \<open>The state of the form controls\<close>

text \<open>
  What the engine reads and writes on an element: its value, its checkedness, the marks
  \<open>dataset.userEdited === "1"\<close> and \<open>dataset.autofilled\<close>, and \<open>style.outline\<close>. The state
  of the page maps identities to these and records the events dispatched, oldest first.
\<close>

record ctl =
  el_value :: string
  checked :: bool
  userEdited :: bool
  autofilled :: "string option"
  outline :: string

record dom_state =
  ctl_of :: "nat \<Rightarrow> ctl"
  dispatched :: "(nat \<times> string) list"

definition upd :: "nat \<Rightarrow> (ctl \<Rightarrow> ctl) \<Rightarrow> dom_state \<Rightarrow> dom_state" where
  "upd i f s = s\<lparr>ctl_of := (ctl_of s)(i := f (ctl_of s i))\<rparr>"

definition in_document :: "node list \<Rightarrow> nat \<Rightarrow> bool" where
  "in_document doc i = (i \<in> set (map eid (all_elements doc)))"

text \<open>
  The two capture listeners the third revision installs on the document: an \<open>input\<close> or
  \<open>change\<close> event whose target is a form element marks the target.
\<close>

definition edit_listener :: "node \<Rightarrow> dom_state \<Rightarrow> dom_state" where
  "edit_listener t s =
     (if isFormEl t then upd (eid t) (\<lambda>c. c\<lparr>userEdited := True, autofilled := Some []\<rparr>) s else s)"

text \<open>
  \<open>el.dispatchEvent(new Event(ev, {bubbles: true}))\<close>. The event is not composed: it
  reaches the listeners of the document only when its target is in the document tree.
  \<open>listening\<close> tells whether the edit listeners are installed (third revision) or not
  (first and second revision).
\<close>

definition dispatchEvent :: "bool \<Rightarrow> node list \<Rightarrow> node \<Rightarrow> string \<Rightarrow> dom_state \<Rightarrow> dom_state" where
  "dispatchEvent listening doc el ev s =
     (let s1 = s\<lparr>dispatched := dispatched s @ [(eid el, ev)]\<rparr>
      in if listening \<and> in_document doc (eid el) \<and> (ev = ''input'' \<or> ev = ''change'')
         then edit_listener el s1 else s1)"

definition input_type :: "node \<Rightarrow> string" where
  "input_type el = toLowerCase (attr_or_empty el ''type'')"

definition is_checkbox :: "node \<Rightarrow> bool" where
  "is_checkbox el = (tag el = ''input'' \<and> input_type el = ''checkbox'')"

definition is_radio :: "node \<Rightarrow> bool" where
  "is_radio el = (tag el = ''input'' \<and> input_type el = ''radio'')"

text \<open>
  \<open>target.click()\<close>: a check box toggles, an unchecked radio button becomes the checked
  one of the radio buttons of its name, and both then fire \<open>input\<close> and \<open>change\<close>; a
  checked radio button and every other control keep their state.
\<close>

definition click :: "bool \<Rightarrow> node list \<Rightarrow> node \<Rightarrow> dom_state \<Rightarrow> dom_state" where
  "click listening doc t s =
     (let s1 = s\<lparr>dispatched := dispatched s @ [(eid t, ''click'')]\<rparr>
      in if is_checkbox t then
           dispatchEvent listening doc t ''change''
             (dispatchEvent listening doc t ''input''
                (upd (eid t) (\<lambda>c. c\<lparr>checked := \<not> checked c\<rparr>) s1))
         else if is_radio t \<and> \<not> checked (ctl_of s1 (eid t)) then
           dispatchEvent listening doc t ''change''
             (dispatchEvent listening doc t ''input''
                (upd (eid t) (\<lambda>c. c\<lparr>checked := True\<rparr>)
                   (foldr (\<lambda>o1. upd (eid o1) (\<lambda>c. c\<lparr>checked := False\<rparr>))
                      (filter (\<lambda>o1. is_radio o1 \<and> getAttribute o1 ''name'' = getAttribute t ''name'')
                         (all_elements doc)) s1)))
         else s1)"

text \<open>\<open>target.value\<close>: the \<open>value\<close> attribute of a check box or radio button (\<open>"on"\<close>
  without one), the current value of any other control.\<close>

definition dom_value :: "dom_state \<Rightarrow> node \<Rightarrow> string" where
  "dom_value s t =
     (if is_checkbox t \<or> is_radio t
      then (case getAttribute t ''value'' of Some v \<Rightarrow> v | None \<Rightarrow> ''on'')
      else el_value (ctl_of s (eid t)))"

text \<open>\<open>el.options\<close>, and \<open>o.value\<close> and \<open>o.text\<close> of an option.\<close>

definition options :: "node \<Rightarrow> node list" where
  "options el =
     concat (map (\<lambda>k. if tag k = ''option'' then [k]
                      else if tag k = ''optgroup'' then filter (\<lambda>o1. tag o1 = ''option'') (kids k)
                      else []) (kids el))"

definition opt_text :: "node \<Rightarrow> string" where
  "opt_text o1 = innerText o1"

definition opt_value :: "node \<Rightarrow> string" where
  "opt_value o1 = (case getAttribute o1 ''value'' of Some v \<Rightarrow> v | None \<Rightarrow> opt_text o1)"

section \<open>The value writer (third revision)\<close>

text \<open>\<open>document.querySelectorAll('input[name="' + CSS.escape(el.name) + '"]')\<close>.\<close>

definition group_of :: "node list \<Rightarrow> node \<Rightarrow> node list" where
  "group_of doc el =
     filter (\<lambda>n. tag n = ''input'' \<and> getAttribute n ''name'' = Some (attr_or_empty el ''name''))
       (all_elements doc)"

definition want :: "jsval \<Rightarrow> string list" where
  "want v = (case v of JArr vs \<Rightarrow> map (\<lambda>x. norm (js_String x)) vs | x \<Rightarrow> [norm (js_String x)])"

text \<open>\<open>norm(labelText(target) || target.value)\<close> and the test
  \<open>want.some(w => w === lbl || lbl.includes(w))\<close>.\<close>

definition target_lbl :: "node list \<Rightarrow> dom_state \<Rightarrow> node \<Rightarrow> string" where
  "target_lbl doc s t =
     norm (if labelText doc t \<noteq> [] then labelText doc t else dom_value s t)"

definition wanted :: "string list \<Rightarrow> string \<Rightarrow> bool" where
  "wanted ws lbl = list_ex (\<lambda>w. w = lbl \<or> includes_str lbl w) ws"

text \<open>The loop of the radio branch: the first wanted member is clicked unless it is
  checked already, and the loop stops there.\<close>

fun radio_loop :: "node list \<Rightarrow> string list \<Rightarrow> node list \<Rightarrow> dom_state \<Rightarrow> dom_state \<times> bool" where
  "radio_loop doc ws [] s = (s, False)"
| "radio_loop doc ws (t # ts) s =
     (if wanted ws (target_lbl doc s t)
      then ((if \<not> checked (ctl_of s (eid t)) then click True doc t s else s), True)
      else radio_loop doc ws ts s)"

text \<open>The loop of the check box branch: every member whose checkedness differs from what
  is wanted is clicked and counted.\<close>

fun checkbox_loop :: "node list \<Rightarrow> string list \<Rightarrow> node list \<Rightarrow> dom_state \<Rightarrow> nat \<Rightarrow> dom_state \<times> nat" where
  "checkbox_loop doc ws [] s clicked = (s, clicked)"
| "checkbox_loop doc ws (t # ts) s clicked =
     (if checked (ctl_of s (eid t)) \<noteq> wanted ws (target_lbl doc s t)
      then checkbox_loop doc ws ts (click True doc t s) (clicked + 1)
      else checkbox_loop doc ws ts s clicked)"

text \<open>The option the select branch chooses for the desired text \<open>v\<close>.\<close>

definition select_candidate :: "node \<Rightarrow> string \<Rightarrow> node option" where
  "select_candidate el v =
     (case find (\<lambda>o1. norm (opt_value o1) = norm v \<or> norm (opt_text o1) = norm v) (options el) of
        Some exact \<Rightarrow> Some exact
      | None \<Rightarrow> find (\<lambda>o1. includes_str (norm (opt_text o1)) (norm v)) (options el))"

definition setValue :: "node list \<Rightarrow> node \<Rightarrow> jsval \<Rightarrow> dom_state \<Rightarrow> dom_state \<times> bool" where
  "setValue doc el v s =
     (if userEdited (ctl_of s (eid el)) then (s, False)
      else if is_radio el then radio_loop doc (want v) (group_of doc el) s
      else if is_checkbox el then
        (case checkbox_loop doc (remdups (want v)) (group_of doc el) s 0 of
           (s1, clicked) \<Rightarrow> (s1, clicked > 0))
      else if tag el = ''select'' then
        (case select_candidate el (trim (js_String (nullish_or v (JStr [])))) of
           Some c \<Rightarrow>
             (dispatchEvent True doc el ''change''
                (upd (eid el) (\<lambda>x. x\<lparr>el_value := opt_value c\<rparr>) s), True)
         | None \<Rightarrow> (s, False))
      else
        (dispatchEvent True doc el ''change''
           (dispatchEvent True doc el ''input''
              (upd (eid el) (\<lambda>x. x\<lparr>el_value := js_String (nullish_or v (JStr []))\<rparr>) s)), True))"

section \<open>The fill pass (third revision)\<close>

text \<open>The parameters of a pass: the alias table, the prototype environment, the document
  and the profile.\<close>

record page =
  aliases_of :: aliases
  proto :: inherited
  document :: "node list"
  profile :: jsval

definition highlight :: "node \<Rightarrow> dom_state \<Rightarrow> dom_state" where
  "highlight el s = upd (eid el) (\<lambda>c. c\<lparr>outline := ''2px solid #f7d560''\<rparr>) s"

text \<open>
  The loop of \<open>fill\<close> with its counter. When \<open>get\<close> throws, the pass stops where it is: the
  state reached so far stays and no count is reported.
\<close>

fun fill_loop :: "page \<Rightarrow> node list \<Rightarrow> dom_state \<Rightarrow> nat \<Rightarrow> dom_state \<times> (js_error + nat)" where
  "fill_loop p [] s n = (s, Inr n)"
| "fill_loop p (el # els) s n =
     (if userEdited (ctl_of s (eid el)) then fill_loop p els s n
      else (case matchKey (aliases_of p) (document p) el of
              None \<Rightarrow> fill_loop p els s n
            | Some key \<Rightarrow>
                (if key = [] then fill_loop p els s n
                 else (case get (proto p) (profile p) key of
                         Inl e \<Rightarrow> (s, Inl e)
                       | Inr val \<Rightarrow>
                           (if nullish val \<or> val = JStr [] then fill_loop p els s n
                            else (case setValue (document p) el val s of
                                    (s1, ok) \<Rightarrow>
                                      (if ok then fill_loop p els (highlight el s1) (n + 1)
                                       else fill_loop p els s1 n)))))))"

definition inputs :: "node list \<Rightarrow> node list" where
  "inputs doc = filter rendered (collectInputsDeep doc)"

text \<open>\<open>fill\<close>: the resulting state, and the count sent with \<open>FILL_DONE\<close> or the error
  thrown.\<close>

definition fill :: "page \<Rightarrow> dom_state \<Rightarrow> dom_state \<times> (js_error + nat)" where
  "fill p s = fill_loop p (inputs (document p)) s 0"

section \<open>The first revision of the content script (\<open>src/content.ts\<close>)\<close>

text \<open>\<open>labelText\<close>: the label that names the element's id, else the enclosing label.\<close>

definition labelText1 :: "node list \<Rightarrow> node \<Rightarrow> string" where
  "labelText1 doc el =
     (case (if attr_or_empty el ''id'' \<noteq> [] then query_label_for doc (attr_or_empty el ''id'')
            else None) of
        Some lbl \<Rightarrow> innerText lbl
      | None \<Rightarrow> text_or_empty (closest doc el ''label''))"


text \<open>The loop over the group: the first member whose text contains the value is
  clicked. No edit listener is installed in this revision.\<close>

fun group_loop1 :: "node list \<Rightarrow> string \<Rightarrow> node list \<Rightarrow> dom_state \<Rightarrow> dom_state \<times> bool" where
  "group_loop1 doc v [] s = (s, False)"
| "group_loop1 doc v (opt # opts) s =
     (if includes_str
           (norm (if labelText1 doc opt \<noteq> [] then labelText1 doc opt else dom_value s opt))
           (norm v)
      then (click False doc opt s, True)
      else group_loop1 doc v opts s)"

definition select_found1 :: "node \<Rightarrow> string \<Rightarrow> node option" where
  "select_found1 el v =
     find (\<lambda>o1. includes_str (norm (opt_text o1)) (norm v) \<or> norm (opt_value o1) = norm v)
       (options el)"

definition setValue1 :: "node list \<Rightarrow> node \<Rightarrow> jsval \<Rightarrow> dom_state \<Rightarrow> dom_state \<times> bool" where
  "setValue1 doc el val s =
     (let v = js_String val
      in if is_checkbox el \<or> is_radio el then group_loop1 doc v (group_of doc el) s
         else if tag el = ''select'' then
           (case select_found1 el v of
              Some found \<Rightarrow>
                (dispatchEvent False doc el ''change''
                   (upd (eid el) (\<lambda>x. x\<lparr>el_value := opt_value found\<rparr>) s), True)
            | None \<Rightarrow> (s, False))
         else
           (dispatchEvent False doc el ''change''
              (dispatchEvent False doc el ''input''
                 (upd (eid el) (\<lambda>x. x\<lparr>el_value := v\<rparr>) s)), True))"




section \<open>The message handlers\<close>



section \<open>The change watcher\<close>

text \<open>
  The timers of the window and the closure variable \<open>t\<close> of \<open>scheduleFill\<close>. Time is counted
  in milliseconds; timer identities are positive; \<open>passes\<close> lists the times at which a
  fill pass ran.
\<close>

record watcher =
  timer :: "nat option"
  pending :: "(nat \<times> nat) list"
  next_id :: nat
  now :: nat
  passes :: "nat list"

definition clearTimeout :: "nat \<Rightarrow> watcher \<Rightarrow> watcher" where
  "clearTimeout i w = w\<lparr>pending := filter (\<lambda>q. fst q \<noteq> i) (pending w)\<rparr>"

text \<open>The function \<open>scheduleFill\<close> returns:
  \<open>if (t) window.clearTimeout(t); t = window.setTimeout(() => fill(profile), 150)\<close>.\<close>

definition run :: "watcher \<Rightarrow> watcher" where
  "run w =
     (let w1 = (case timer w of
                  None \<Rightarrow> w
                | Some i \<Rightarrow> (if i \<noteq> 0 then clearTimeout i w else w))
      in w1\<lparr>timer := Some (next_id w1),
             pending := pending w1 @ [(next_id w1, now w1 + 150)],
             next_id := next_id w1 + 1\<rparr>)"

text \<open>Time passes: the timers due by then fire in the order they were set, and each runs
  one fill pass.\<close>

definition elapse :: "nat \<Rightarrow> watcher \<Rightarrow> watcher" where
  "elapse d w =
     w\<lparr>now := now w + d,
        passes := passes w @ map snd (filter (\<lambda>q. snd q \<le> now w + d) (pending w)),
        pending := filter (\<lambda>q. \<not> snd q \<le> now w + d) (pending w)\<rparr>"

record mrecord =
  addedNodes :: nat
  removedNodes :: nat

datatype event = Mutations "mrecord list" | Elapse nat

text \<open>The observer callback of the third revision:
  \<open>if (muts.some(m => m.addedNodes && m.addedNodes.length > 0)) run()\<close>.\<close>

fun step3 :: "event \<Rightarrow> watcher \<Rightarrow> watcher" where
  "step3 (Mutations muts) w = (if list_ex (\<lambda>m. addedNodes m > 0) muts then run w else w)"
| "step3 (Elapse d) w = elapse d w"

text \<open>The observer callback of the second revision (\<open>src/unnamed/part_004\<close>) is \<open>run\<close>
  itself.\<close>

fun step2 :: "event \<Rightarrow> watcher \<Rightarrow> watcher" where
  "step2 (Mutations muts) w = run w"
| "step2 (Elapse d) w = elapse d w"

text \<open>\<open>watchForChanges\<close>: a new closure with its own \<open>t\<close>, and the initial \<open>run()\<close>.\<close>

definition watchForChanges :: "watcher \<Rightarrow> watcher" where
  "watchForChanges w = run (w\<lparr>timer := None\<rparr>)"

text \<open>A burst: a first batch, then batches each after a gap, then a quiet time.\<close>

definition burst :: "mrecord list \<Rightarrow> (nat \<times> mrecord list) list \<Rightarrow> nat \<Rightarrow> event list" where
  "burst b0 rest quiet =
     Mutations b0 # concat (map (\<lambda>gb. [Elapse (fst gb), Mutations (snd gb)]) rest) @ [Elapse quiet]"

definition run_events :: "(event \<Rightarrow> watcher \<Rightarrow> watcher) \<Rightarrow> event list \<Rightarrow> watcher \<Rightarrow> watcher" where
  "run_events step evs w = foldl (\<lambda>x e. step e x) w evs"

section \<open>Sample data\<close>

text \<open>A page nobody has touched yet, and an alias table in the manner of \<open>aliases.ts\<close>.\<close>

definition fresh :: dom_state where
  "fresh =
     \<lparr>ctl_of = (\<lambda>i. \<lparr>el_value = [], checked = False, userEdited = False, autofilled = None,
                       outline = []\<rparr>),
      dispatched = []\<rparr>"

definition sample_aliases :: aliases where
  "sample_aliases =
     [(''basics.email'', [test_ci ''email'', test_ci ''e-mail'']),
      (''basics.firstName'', [test_ci ''first'', test_ci ''name'']),
      (''demographics.gender'', [test_ci ''gender'']),
      (''demographics.race'', [test_ci ''race'', test_ci ''ethnic'']),
      (''education.mostRecent.end'', [test_ci ''graduation''])]"

definition sample_profile :: jsval where
  "sample_profile =
     JObj [(''basics'', JObj [(''firstName'', JStr ''John''), (''lastName'', JStr ''Doe''),
                             (''email'', JStr ''john@example.com'')]),
           (''education'', JArr [JObj [(''school'', JStr ''A''), (''end'', JStr ''2019'')],
                                JObj [(''school'', JStr ''B''), (''end'', JStr ''Present'')]]),
           (''demographics'', JObj [(''gender'', JStr ''Male''),
                                   (''raceEthnicity'', JArr [JStr ''Asian''])])]"

definition text_input :: "nat \<Rightarrow> string \<Rightarrow> node" where
  "text_input i name = Node i ''input'' [(''name'', name)] [] True [] None"

definition checkbox :: "nat \<Rightarrow> string \<Rightarrow> string \<Rightarrow> node" where
  "checkbox i name v =
     Node i ''input'' [(''type'', ''checkbox''), (''name'', name), (''value'', v)] [] True [] None"

definition country_select :: "nat \<Rightarrow> node" where
  "country_select i =
     Node i ''select'' [(''name'', ''country'')] [] True
       [Node (i + 1) ''option'' [(''value'', ''UM'')] ''United States Minor Outlying Islands''
          True [] None,
        Node (i + 2) ''option'' [(''value'', ''US'')] ''United States'' True [] None,
        Node (i + 3) ''option'' [(''value'', ''CA'')] ''Canada'' True [] None] None"

definition sample_page :: "node list \<Rightarrow> jsval \<Rightarrow> page" where
  "sample_page doc prof =
     \<lparr>aliases_of = sample_aliases, proto = no_inherited, document = doc, profile = prof\<rparr>"

section \<open>Notions for stating what a pass leaves alone\<close>



text \<open>What a write leaves on an element: its value and its highlight.\<close>

definition written :: "dom_state \<Rightarrow> nat \<Rightarrow> string \<times> string" where
  "written s i = (el_value (ctl_of s i), outline (ctl_of s i))"

section \<open>Notions for comparing two passes\<close>

text \<open>A text or select element, as opposed to a check box or radio button.\<close>

definition plain :: "node \<Rightarrow> bool" where
  "plain el = (\<not> is_checkbox el \<and> \<not> is_radio el)"

text \<open>
  What a pass of the third revision is going to write into a plain element: nothing, a
  text, or nothing at all because \<open>get\<close> throws.
\<close>

definition plan :: "page \<Rightarrow> node \<Rightarrow> js_error + string option" where
  "plan p el =
     (case matchKey (aliases_of p) (document p) el of
        None \<Rightarrow> Inr None
      | Some key \<Rightarrow>
          (if key = [] then Inr None
           else (case get (proto p) (profile p) key of
                   Inl e \<Rightarrow> Inl e
                 | Inr val \<Rightarrow>
                     (if nullish val \<or> val = JStr [] then Inr None
                      else if tag el = ''select'' then
                        Inr (map_option opt_value
                               (select_candidate el (trim (js_String (nullish_or val (JStr []))))))
                      else Inr (Some (js_String (nullish_or val (JStr []))))))))"

text \<open>The edit listeners hear the events dispatched on this element.\<close>

definition heard :: "node list \<Rightarrow> node \<Rightarrow> bool" where
  "heard doc el = (in_document doc (eid el) \<and> isFormEl el)"

text \<open>What writing the text \<open>v\<close> and highlighting does to the controls of the element.\<close>

definition after_write :: "node list \<Rightarrow> node \<Rightarrow> string \<Rightarrow> ctl \<Rightarrow> ctl" where
  "after_write doc el v c =
     (if heard doc el
      then c\<lparr>el_value := v, userEdited := True, autofilled := Some [],
             outline := ''2px solid #f7d560''\<rparr>
      else c\<lparr>el_value := v, outline := ''2px solid #f7d560''\<rparr>)"

text \<open>A pass has nothing left to change on the element.\<close>

definition settled :: "page \<Rightarrow> node \<Rightarrow> ctl \<Rightarrow> bool" where
  "settled p el c =
     (userEdited c \<or>
      (case plan p el of
         Inl e \<Rightarrow> False
       | Inr None \<Rightarrow> True
       | Inr (Some v) \<Rightarrow>
           el_value c = v \<and> outline c = ''2px solid #f7d560'' \<and> \<not> heard (document p) el))"

section \<open>Verified properties\<close>

subsection \<open>Direct path resolution\<close>





subsection \<open>The most recent education entry\<close>

























subsection \<open>Key matching\<close>

lemma match_table_Some:
  "match_table al c = Some k \<longleftrightarrow>
     (\<exists>i<length al. fst (al ! i) = k \<and> list_ex (\<lambda>r. r c) (snd (al ! i))
        \<and> (\<forall>j<i. \<not> list_ex (\<lambda>r. r c) (snd (al ! j))))"
proof (induction al)
  case Nil
  then show ?case by simp
next
  case (Cons e al)
  obtain k0 regs where e: "e = (k0, regs)" by (cases e)
  show ?case
  proof (cases "list_ex (\<lambda>r. r c) regs")
    case True
    have "(\<exists>i<length (e # al). fst ((e # al) ! i) = k \<and> list_ex (\<lambda>r. r c) (snd ((e # al) ! i))
            \<and> (\<forall>j<i. \<not> list_ex (\<lambda>r. r c) (snd ((e # al) ! j)))) \<longleftrightarrow> k0 = k"
    proof
      assume "\<exists>i<length (e # al). fst ((e # al) ! i) = k \<and> list_ex (\<lambda>r. r c) (snd ((e # al) ! i))
            \<and> (\<forall>j<i. \<not> list_ex (\<lambda>r. r c) (snd ((e # al) ! j)))"
      then obtain i where i: "fst ((e # al) ! i) = k"
        "\<forall>j<i. \<not> list_ex (\<lambda>r. r c) (snd ((e # al) ! j))" by blast
      have "i = 0"
      proof (rule ccontr)
        assume "i \<noteq> 0"
        then have "\<not> list_ex (\<lambda>r. r c) (snd ((e # al) ! 0))" using i(2) by blast
        then show False using True e by simp
      qed
      then show "k0 = k" using i(1) e by simp
    next
      assume "k0 = k"
      then have "fst ((e # al) ! 0) = k \<and> list_ex (\<lambda>r. r c) (snd ((e # al) ! 0))
        \<and> (\<forall>j<0. \<not> list_ex (\<lambda>r. r c) (snd ((e # al) ! j)))"
        using True e by simp
      then show "\<exists>i<length (e # al). fst ((e # al) ! i) = k \<and> list_ex (\<lambda>r. r c) (snd ((e # al) ! i))
            \<and> (\<forall>j<i. \<not> list_ex (\<lambda>r. r c) (snd ((e # al) ! j)))"
        by (intro exI [of _ 0]) simp
    qed
    then show ?thesis using True e by simp
  next
    case False
    have "(\<exists>i<length (e # al). fst ((e # al) ! i) = k \<and> list_ex (\<lambda>r. r c) (snd ((e # al) ! i))
            \<and> (\<forall>j<i. \<not> list_ex (\<lambda>r. r c) (snd ((e # al) ! j))))
          \<longleftrightarrow> (\<exists>i<length al. fst (al ! i) = k \<and> list_ex (\<lambda>r. r c) (snd (al ! i))
            \<and> (\<forall>j<i. \<not> list_ex (\<lambda>r. r c) (snd (al ! j))))"
      (is "?L \<longleftrightarrow> ?R")
    proof
      assume ?L
      then obtain i where i: "i < length (e # al)" "fst ((e # al) ! i) = k"
        "list_ex (\<lambda>r. r c) (snd ((e # al) ! i))"
        "\<forall>j<i. \<not> list_ex (\<lambda>r. r c) (snd ((e # al) ! j))" by blast
      from i(3) False e have "i \<noteq> 0" by (cases i) auto
      then obtain i' where i': "i = Suc i'" by (cases i) auto
      have "\<forall>j<i'. \<not> list_ex (\<lambda>r. r c) (snd (al ! j))"
      proof (intro allI impI)
        fix j assume "j < i'"
        then have "Suc j < i" using i' by simp
        then have "\<not> list_ex (\<lambda>r. r c) (snd ((e # al) ! Suc j))" using i(4) by blast
        then show "\<not> list_ex (\<lambda>r. r c) (snd (al ! j))" by simp
      qed
      then show ?R using i i' by (intro exI [of _ i']) simp
    next
      assume ?R
      then obtain i where i: "i < length al" "fst (al ! i) = k"
        "list_ex (\<lambda>r. r c) (snd (al ! i))"
        "\<forall>j<i. \<not> list_ex (\<lambda>r. r c) (snd (al ! j))" by blast
      have "\<forall>j<Suc i. \<not> list_ex (\<lambda>r. r c) (snd ((e # al) ! j))"
      proof (intro allI impI)
        fix j assume j: "j < Suc i"
        show "\<not> list_ex (\<lambda>r. r c) (snd ((e # al) ! j))"
          using j i(4) False e by (cases j) auto
      qed
      then show ?L using i by (intro exI [of _ "Suc i"]) simp
    qed
    then show ?thesis using False e Cons.IH by simp
  qed
qed

lemma match_table_None:
  "match_table al c = None \<longleftrightarrow> (\<forall>i<length al. \<not> list_ex (\<lambda>r. r c) (snd (al ! i)))"
proof (induction al)
  case Nil
  then show ?case by simp
next
  case (Cons e al)
  obtain k0 regs where e: "e = (k0, regs)" by (cases e)
  have "(\<forall>i<length (e # al). \<not> list_ex (\<lambda>r. r c) (snd ((e # al) ! i)))
        \<longleftrightarrow> \<not> list_ex (\<lambda>r. r c) regs \<and> (\<forall>i<length al. \<not> list_ex (\<lambda>r. r c) (snd (al ! i)))"
    using e by (auto simp: All_less_Suc2)
  then show ?case using e Cons.IH by simp
qed

lemma fill_loop_unmatched:
  "matchKey (aliases_of p) (document p) el = None \<Longrightarrow>
   fill_loop p (el # els) s n = fill_loop p els s n"
  by simp

text \<open>
  C8. The key of an element is the key of the first entry of the alias table, in table
  order, one of whose patterns matches the descriptor; so an element has at most one
  key, and it has none exactly when no pattern of any entry matches. The loop of the fill
  pass passes over an element without a key: state and counter stay as they are and no
  error arises.
\<close>

theorem matchKey_first_match_wins:
  "(matchKey al doc el = Some k \<longleftrightarrow>
      (\<exists>i<length al. fst (al ! i) = k \<and> list_ex (\<lambda>r. r (candidates doc el)) (snd (al ! i))
         \<and> (\<forall>j<i. \<not> list_ex (\<lambda>r. r (candidates doc el)) (snd (al ! j)))))
   \<and> (matchKey al doc el = None \<longleftrightarrow>
        (\<forall>i<length al. \<not> list_ex (\<lambda>r. r (candidates doc el)) (snd (al ! i))))
   \<and> (matchKey (aliases_of p) (document p) el2 = None \<longrightarrow>
        fill_loop p (el2 # els) s n = fill_loop p els s n)"
  using match_table_Some [of al "candidates doc el" k] match_table_None [of al "candidates doc el"]
    fill_loop_unmatched [of p el2 els s n]
  unfolding matchKey_def by blast

theorem matchKey_first_match_wins_witness:
  "list_ex (\<lambda>r. r (candidates [text_input 1 ''Email_Name''] (text_input 1 ''Email_Name'')))
      (snd (sample_aliases ! 0))
   \<and> list_ex (\<lambda>r. r (candidates [text_input 1 ''Email_Name''] (text_input 1 ''Email_Name'')))
      (snd (sample_aliases ! 1))
   \<and> matchKey sample_aliases [text_input 1 ''Email_Name''] (text_input 1 ''Email_Name'')
       = Some ''basics.email''
   \<and> matchKey (aliases_of (sample_page [text_input 2 ''q''] (JObj [])))
        (document (sample_page [text_input 2 ''q''] (JObj []))) (text_input 2 ''q'') = None
   \<and> fill_loop (sample_page [text_input 2 ''q''] (JObj [])) (text_input 2 ''q'' # []) fresh 0
       = fill_loop (sample_page [text_input 2 ''q''] (JObj [])) [] fresh 0"
proof -
  let ?d = "[text_input 1 ''Email_Name'']" and ?e = "text_input 1 ''Email_Name''"
  let ?p = "sample_page [text_input 2 ''q''] (JObj [])"
  have h0: "list_ex (\<lambda>r. r (candidates ?d ?e)) (snd (sample_aliases ! 0))"
    by code_simp
  have h1: "list_ex (\<lambda>r. r (candidates ?d ?e)) (snd (sample_aliases ! 1))"
    by code_simp
  have l: "0 < length sample_aliases" and f: "fst (sample_aliases ! 0) = ''basics.email''"
    by (simp_all add: sample_aliases_def)
  have ex: "\<exists>i<length sample_aliases. fst (sample_aliases ! i) = ''basics.email''
      \<and> list_ex (\<lambda>r. r (candidates ?d ?e)) (snd (sample_aliases ! i))
      \<and> (\<forall>j<i. \<not> list_ex (\<lambda>r. r (candidates ?d ?e)) (snd (sample_aliases ! j)))"
    using l f h0 by (intro exI [of _ 0]) simp
  have h2: "matchKey (aliases_of ?p) (document ?p) (text_input 2 ''q'') = None"
    by code_simp
  note T = matchKey_first_match_wins [of sample_aliases ?d ?e "''basics.email''" ?p
      "text_input 2 ''q''" "[]" fresh 0]
  have c1: "matchKey sample_aliases ?d ?e = Some ''basics.email''"
    using T ex by blast
  have c2: "fill_loop ?p (text_input 2 ''q'' # []) fresh 0 = fill_loop ?p [] fresh 0"
    using T h2 by blast
  show ?thesis
    using h0 h1 c1 h2 c2 by blast
qed

subsection \<open>What a pass leaves alone\<close>

lemma written_dispatchEvent [simp]: "written (dispatchEvent l doc el ev s) i = written s i"
  by (simp add: written_def dispatchEvent_def edit_listener_def upd_def Let_def)

lemma written_upd_checked [simp]:
  "written (upd j (\<lambda>c. c\<lparr>checked := b c\<rparr>) s) i = written s i"
  by (simp add: written_def upd_def)

lemma written_log [simp]: "written (s\<lparr>dispatched := l\<rparr>) i = written s i"
  by (simp add: written_def)

lemma written_foldr_uncheck [simp]:
  "written (foldr (\<lambda>o1. upd (eid o1) (\<lambda>c. c\<lparr>checked := False\<rparr>)) ts s) i = written s i"
  by (induction ts) simp_all

lemma written_click [simp]: "written (click l doc t s) i = written s i"
  by (simp add: click_def Let_def)

lemma written_radio_loop [simp]: "written (fst (radio_loop doc ws ts s)) i = written s i"
  by (induction ts) simp_all

lemma written_checkbox_loop [simp]:
  "written (fst (checkbox_loop doc ws ts s n)) i = written s i"
  by (induction ts arbitrary: s n) simp_all











subsection \<open>The demographics gate\<close>

lemma written_group_loop1 [simp]: "written (fst (group_loop1 doc v ts s)) i = written s i"
  by (induction ts) simp_all








subsection \<open>The select branch of the writer\<close>

lemma select_candidate_exact_first:
  "select_candidate el w =
     (if list_ex (\<lambda>o1. norm (opt_value o1) = norm w \<or> norm (opt_text o1) = norm w) (options el)
      then find (\<lambda>o1. norm (opt_value o1) = norm w \<or> norm (opt_text o1) = norm w) (options el)
      else find (\<lambda>o1. includes_str (norm (opt_text o1)) (norm w)) (options el))"
proof -
  let ?exact = "\<lambda>o1. norm (opt_value o1) = norm w \<or> norm (opt_text o1) = norm w"
  have "find ?exact (options el) = None \<longleftrightarrow> \<not> list_ex ?exact (options el)"
    by (auto simp: find_None_iff list_ex_iff)
  then show ?thesis
    by (cases "find ?exact (options el)") (simp_all add: select_candidate_def)
qed

lemma setValue_select:
  assumes "\<not> userEdited (ctl_of s (eid el))" "tag el = ''select''"
  shows "setValue doc el v s =
     (case select_candidate el (trim (js_String (nullish_or v (JStr [])))) of
        Some c \<Rightarrow> (dispatchEvent True doc el ''change''
                     (upd (eid el) (\<lambda>x. x\<lparr>el_value := opt_value c\<rparr>) s), True)
      | None \<Rightarrow> (s, False))"
  using assms by (simp add: setValue_def is_radio_def is_checkbox_def)

text \<open>
  C5 (as amended). In the third revision, for a select element that is not marked
  user-edited and a desired value, the writer takes the first option whose machine value
  or displayed text equals the trimmed desired value after normalisation; only when no
  option does, the first option whose normalised text contains it. With an option chosen
  it sets the value of the select to the option's machine value, dispatches one
  \<open>change\<close> event on the select and reports success; otherwise it leaves the state as
  it was and reports failure.
\<close>

theorem setValue_select_exact_then_contains:
  "select_candidate el w =
     (if list_ex (\<lambda>o1. norm (opt_value o1) = norm w \<or> norm (opt_text o1) = norm w) (options el)
      then find (\<lambda>o1. norm (opt_value o1) = norm w \<or> norm (opt_text o1) = norm w) (options el)
      else find (\<lambda>o1. includes_str (norm (opt_text o1)) (norm w)) (options el))
   \<and> (\<not> userEdited (ctl_of s (eid el)) \<and> tag el = ''select''
        \<and> select_candidate el (trim (js_String (nullish_or v (JStr [])))) = Some c
        \<longrightarrow> snd (setValue doc el v s)
            \<and> el_value (ctl_of (fst (setValue doc el v s)) (eid el)) = opt_value c
            \<and> dispatched (fst (setValue doc el v s)) = dispatched s @ [(eid el, ''change'')])
   \<and> (\<not> userEdited (ctl_of s (eid el)) \<and> tag el = ''select''
        \<and> select_candidate el (trim (js_String (nullish_or v (JStr [])))) = None
        \<longrightarrow> setValue doc el v s = (s, False))"
proof (intro conjI impI)
  show "select_candidate el w =
     (if list_ex (\<lambda>o1. norm (opt_value o1) = norm w \<or> norm (opt_text o1) = norm w) (options el)
      then find (\<lambda>o1. norm (opt_value o1) = norm w \<or> norm (opt_text o1) = norm w) (options el)
      else find (\<lambda>o1. includes_str (norm (opt_text o1)) (norm w)) (options el))"
    by (rule select_candidate_exact_first)
next
  assume a: "\<not> userEdited (ctl_of s (eid el)) \<and> tag el = ''select''
        \<and> select_candidate el (trim (js_String (nullish_or v (JStr [])))) = Some c"
  then have r: "setValue doc el v s =
      (dispatchEvent True doc el ''change'' (upd (eid el) (\<lambda>x. x\<lparr>el_value := opt_value c\<rparr>) s), True)"
    using setValue_select [of s el doc v] by simp
  show "snd (setValue doc el v s)" using r by simp
  show "el_value (ctl_of (fst (setValue doc el v s)) (eid el)) = opt_value c"
    using r by (simp add: dispatchEvent_def edit_listener_def upd_def Let_def)
  show "dispatched (fst (setValue doc el v s)) = dispatched s @ [(eid el, ''change'')]"
    using r by (simp add: dispatchEvent_def edit_listener_def upd_def Let_def)
next
  assume "\<not> userEdited (ctl_of s (eid el)) \<and> tag el = ''select''
        \<and> select_candidate el (trim (js_String (nullish_or v (JStr [])))) = None"
  then show "setValue doc el v s = (s, False)"
    using setValue_select [of s el doc v] by simp
qed

theorem setValue_select_exact_then_contains_witness:
  "\<not> userEdited (ctl_of fresh (eid (country_select 1)))
   \<and> tag (country_select 1) = ''select''
   \<and> map_option opt_value
        (select_candidate (country_select 1) (trim (js_String (nullish_or (JStr '' united  states '') (JStr [])))))
       = Some ''US''
   \<and> snd (setValue [country_select 1] (country_select 1) (JStr '' united  states '') fresh)
   \<and> el_value (ctl_of (fst (setValue [country_select 1] (country_select 1)
        (JStr '' united  states '') fresh)) (eid (country_select 1))) = ''US''
   \<and> dispatched (fst (setValue [country_select 1] (country_select 1)
        (JStr '' united  states '') fresh))
       = dispatched fresh @ [(eid (country_select 1), ''change'')]
   \<and> select_candidate (country_select 1) (trim (js_String (nullish_or (JStr ''France'') (JStr []))))
       = None
   \<and> setValue [country_select 1] (country_select 1) (JStr ''France'') fresh = (fresh, False)"
proof -
  let ?e = "country_select 1"
  let ?v = "JStr '' united  states ''"
  have h1: "\<not> userEdited (ctl_of fresh (eid ?e)) \<and> tag ?e = ''select''"
    by code_simp
  obtain c where c: "select_candidate ?e (trim (js_String (nullish_or ?v (JStr [])))) = Some c"
    and cv: "opt_value c = ''US''"
  proof -
    have "map_option opt_value (select_candidate ?e (trim (js_String (nullish_or ?v (JStr [])))))
          = Some ''US''"
      by code_simp
    then show ?thesis using that by auto
  qed
  have h3: "select_candidate ?e (trim (js_String (nullish_or (JStr ''France'') (JStr [])))) = None"
    by code_simp
  note T1 = setValue_select_exact_then_contains [of ?e _ fresh ?v c "[?e]"]
  note T2 = setValue_select_exact_then_contains [of ?e _ fresh "JStr ''France''" _ "[?e]"]
  have c1: "snd (setValue [?e] ?e ?v fresh)"
    and c2: "el_value (ctl_of (fst (setValue [?e] ?e ?v fresh)) (eid ?e)) = ''US''"
    and c3: "dispatched (fst (setValue [?e] ?e ?v fresh)) = dispatched fresh @ [(eid ?e, ''change'')]"
    using T1 h1 c cv by simp_all
  have c4: "setValue [?e] ?e (JStr ''France'') fresh = (fresh, False)"
    using T2 h1 h3 by blast
  show ?thesis
    using h1 c cv c1 c2 c3 h3 c4 by simp
qed

text \<open>
  C5, the counterexample. The writer of \<open>src/content.ts\<close> searches once, for the first
  option whose text contains the desired value or whose machine value equals it: with
  "United States Minor Outlying Islands" listed before "United States" it selects the
  former for the desired value "United States", although the latter matches exactly. The
  writer of the third revision selects the exact match.
\<close>

theorem setValue1_select_takes_earlier_substring:
  "list_ex (\<lambda>o1. norm (opt_text o1) = norm ''United States'') (options (country_select 1))
   \<and> map_option opt_value (select_found1 (country_select 1) (js_String (JStr ''United States'')))
       = Some ''UM''
   \<and> el_value (ctl_of (fst (setValue1 [country_select 1] (country_select 1)
        (JStr ''United States'') fresh)) 1) = ''UM''
   \<and> el_value (ctl_of (fst (setValue [country_select 1] (country_select 1)
        (JStr ''United States'') fresh)) 1) = ''US''"
  by code_simp

subsection \<open>User-edited elements\<close>

text \<open>
  C2, the failing input. Two check boxes of the group "race", both matched to
  \<open>demographics.race\<close>; the user has checked the first one (it is marked user-edited);
  the profile wants "Asian", the label of the second. The pass skips the first element in
  its loop, but the check box branch, run for the second, walks the whole group and
  clicks the first one too: its checkedness goes from true to false.
\<close>

theorem fill_clicks_user_edited_group_member:
  "userEdited (ctl_of (upd 1 (\<lambda>c. c\<lparr>checked := True, userEdited := True\<rparr>) fresh) 1)
   \<and> checked (ctl_of (upd 1 (\<lambda>c. c\<lparr>checked := True, userEdited := True\<rparr>) fresh) 1)
   \<and> \<not> checked (ctl_of (fst (fill
         (sample_page [checkbox 1 ''race'' ''White'', checkbox 2 ''race'' ''Asian''] sample_profile)
         (upd 1 (\<lambda>c. c\<lparr>checked := True, userEdited := True\<rparr>) fresh))) 1)
   \<and> snd (fill
         (sample_page [checkbox 1 ''race'' ''White'', checkbox 2 ''race'' ''Asian''] sample_profile)
         (upd 1 (\<lambda>c. c\<lparr>checked := True, userEdited := True\<rparr>) fresh)) = Inr 1"
  by code_simp

end
